theory Spec2Isabelle
  imports
    Main
    "HOL-Library.Sublist"
    "HOL-Library.Char_ord"
    "HOL-Library.List_Lexorder"
begin

section \<open>g3dMGU\_editCustomStepCommonPath: strings, host and filesystem\<close>

text \<open>
  The script edits the directory prefix shared by the file paths stored in the two
  string attributes \<open>preCustomStep\<close> and \<open>postCustomStep\<close> of an mGear guide node.
  Python strings are modelled as \<^typ>\<open>string\<close> (lists of 8-bit characters), Python
  exceptions as values of \<open>exn\<close> carried in the left summand of a sum type, and
  the Maya scene, the filesystem, the user and the console as one record \<open>world\<close>
  that every effectful function takes and returns.
\<close>

subsection \<open>Characters\<close>

definition backslash :: char where
  "backslash = CHR 0x5C"

definition newline :: char where
  "newline = CHR 0x0A"

definition is_digit :: "char \<Rightarrow> bool" where
  \<comment> \<open>\<open>\d\<close> on 8-bit characters: the ten ASCII digits\<close>
  "is_digit c = (CHR ''0'' \<le> c \<and> c \<le> CHR ''9'')"

subsection \<open>Python string methods\<close>

text \<open>
  \<open>s.split(sep)\<close> for a non-empty separator: scan from the left, cut at every
  occurrence of \<open>sep\<close>, continue after it. The result always has at least one
  field. (Python raises ValueError for an empty separator; the script only splits on
  the literals \<open>","\<close>, \<open>" | "\<close> and \<open>"/"\<close>.)
\<close>

fun split_from :: "string \<Rightarrow> string \<Rightarrow> string \<Rightarrow> string list" where
  "split_from sep cur [] = [cur]"
| "split_from sep cur (c # cs) =
     (if sep \<noteq> [] \<and> prefix sep (c # cs)
      then cur # split_from sep [] (drop (length sep - 1) cs)
      else split_from sep (cur @ [c]) cs)"

definition split_str :: "string \<Rightarrow> string \<Rightarrow> string list" where
  "split_str s sep = split_from sep [] s"

text \<open>
  \<open>s.replace(old, new)\<close>: every non-overlapping occurrence of \<open>old\<close>, from the
  left, becomes \<open>new\<close>; an empty \<open>old\<close> matches before every character and at the
  end.
\<close>

fun replace_str :: "string \<Rightarrow> string \<Rightarrow> string \<Rightarrow> string" where
  "replace_str [] old new = (if old = [] then new else [])"
| "replace_str (c # cs) old new =
     (if old = [] then new @ c # replace_str cs old new
      else if prefix old (c # cs) then new @ replace_str (drop (length old - 1) cs) old new
      else c # replace_str cs old new)"

text \<open>\<open>sep.join(xs)\<close>.\<close>

fun join_str :: "string \<Rightarrow> string list \<Rightarrow> string" where
  "join_str sep [] = []"
| "join_str sep [x] = x"
| "join_str sep (x # y # ys) = x @ sep @ join_str sep (y # ys)"

subsection \<open>Exceptions and host events\<close>

datatype exn_kind = IndexError | ValueError | TypeError | RuntimeError | OSError

datatype exn = Exn exn_kind string

fun str_of :: "exn \<Rightarrow> string" where
  \<comment> \<open>\<open>str(e)\<close>, as interpolated by \<open>f"...{e}"\<close>\<close>
  "str_of (Exn k msg) = msg"

datatype event =
    Print string
  | Warning string
  | Error string
  | ConfirmDialog string string
  | SetAttr string string
  | DeleteUI string
  | CopyTree string string

text \<open>
  The world the script runs in. \<open>attrs\<close> maps a plug name \<open>node.attribute\<close> to its
  string value; \<open>transforms\<close> is what \<open>cmds.ls(type="transform")\<close> lists, in
  order; \<open>files\<close> holds the paths for which \<open>os.path.exists\<close> is true;
  \<open>respond\<close> is the button the user presses in a confirm dialog with the given title
  and message; \<open>copy_fault\<close> is the message of the OS error (if any) with which a
  recursive copy from one path to another fails; \<open>error_raises\<close> tells whether the
  host's \<open>cmds.error\<close> raises after reporting (Maya's Python binding raises
  RuntimeError); \<open>trace\<close> records every observable effect, oldest first.
\<close>

record world =
  attrs :: "string \<rightharpoonup> string"
  transforms :: "string list"
  files :: "string set"
  respond :: "string \<Rightarrow> string \<Rightarrow> string"
  copy_fault :: "string \<Rightarrow> string \<Rightarrow> string option"
  error_raises :: bool
  trace :: "event list"

definition emit :: "event \<Rightarrow> world \<Rightarrow> world" where
  "emit e w = w\<lparr>trace := trace w @ [e]\<rparr>"

definition path_exists :: "world \<Rightarrow> string \<Rightarrow> bool" where
  \<comment> \<open>\<open>os.path.exists\<close>\<close>
  "path_exists w p = (p \<in> files w)"

subsection \<open>\<open>os.path\<close>, POSIX flavour\<close>

definition path_join :: "string \<Rightarrow> string \<Rightarrow> string" where
  \<comment> \<open>\<open>os.path.join(a, b)\<close>: an absolute \<open>b\<close> replaces \<open>a\<close>\<close>
  "path_join a b =
     (if prefix ''/'' b then b
      else if a = [] \<or> suffix ''/'' a then a @ b
      else a @ ''/'' @ b)"

section \<open>checkFileExistence\<close>

fun checkFileExistence_loop ::
  "string \<Rightarrow> string list \<Rightarrow> string list \<times> string list \<Rightarrow> world
     \<Rightarrow> (string list \<times> string list) \<times> world" where
  "checkFileExistence_loop basePath [] (existingFiles, missingFiles) w =
     ((existingFiles, missingFiles), w)"
| "checkFileExistence_loop basePath (path # paths) (existingFiles, missingFiles) w =
     (let fullPath = replace_str (path_join basePath path) [backslash] ''/''
      in if path_exists w fullPath
         then checkFileExistence_loop basePath paths
                (existingFiles @ [fullPath], missingFiles)
                (emit (Print (''[ Exists ]: '' @ fullPath)) w)
         else checkFileExistence_loop basePath paths
                (existingFiles, missingFiles @ [fullPath])
                (emit (Print (''[ Missing ]: '' @ fullPath)) w))"

definition checkFileExistence ::
  "string \<Rightarrow> string list \<Rightarrow> world \<Rightarrow> (string list \<times> string list) \<times> world" where
  "checkFileExistence basePath paths w =
     (case checkFileExistence_loop basePath paths ([], [])
             (emit (Print ''## checkFileExistence'') w) of
        (r, w') \<Rightarrow> (r, emit (Print '''') w'))"

text \<open>The full path the checker tests and reports for one input path.\<close>

definition full_path :: "string \<Rightarrow> string \<Rightarrow> string" where
  "full_path basePath path = replace_str (path_join basePath path) [backslash] ''/''"

section \<open>Host commands\<close>

definition cmds_warning :: "string \<Rightarrow> world \<Rightarrow> world" where
  "cmds_warning msg w = emit (Warning msg) w"

text \<open>
  \<open>cmds.error(msg)\<close> reports the message; whether control then returns to the caller
  is the host's \<open>error_raises\<close>.
\<close>

definition cmds_error :: "string \<Rightarrow> world \<Rightarrow> (exn + unit) \<times> world" where
  "cmds_error msg w =
     (if error_raises w then (Inl (Exn RuntimeError msg), emit (Error msg) w)
      else (Inr (), emit (Error msg) w))"

definition objExists :: "world \<Rightarrow> string \<Rightarrow> bool" where
  "objExists w plug = (attrs w plug \<noteq> None)"

definition getAttr :: "world \<Rightarrow> string \<Rightarrow> exn + string" where
  "getAttr w plug =
     (case attrs w plug of
        None \<Rightarrow> Inl (Exn ValueError (''No object matches name: '' @ plug))
      | Some v \<Rightarrow> Inr v)"

text \<open>
  \<open>cmds.setAttr(plug, v, type="string")\<close> fails when the plug does not exist. Other
  ways in which a host may reject a write (a locked attribute) are not part of this
  world.
\<close>

definition setAttr :: "string \<Rightarrow> string \<Rightarrow> world \<Rightarrow> (exn + unit) \<times> world" where
  "setAttr plug v w =
     (case attrs w plug of
        None \<Rightarrow> (Inl (Exn RuntimeError (''No object matches name: '' @ plug)), w)
      | Some old \<Rightarrow> (Inr (), emit (SetAttr plug v) (w\<lparr>attrs := (attrs w)(plug \<mapsto> v)\<rparr>)))"

definition confirmDialog :: "string \<Rightarrow> string \<Rightarrow> world \<Rightarrow> string \<times> world" where
  \<comment> \<open>returns the label of the button pressed\<close>
  "confirmDialog title message w = (respond w title message, emit (ConfirmDialog title message) w)"



section \<open>findGuideNode\<close>

fun findGuideNode_loop :: "world \<Rightarrow> string list \<Rightarrow> exn + string" where
  "findGuideNode_loop w [] =
     Inl (Exn RuntimeError
            (''No valid guide node with attribute '' @ [CHR 0x27] @ ''preCustomStep'' @
             [CHR 0x27] @ '' found.''))"
| "findGuideNode_loop w (trns # rest) =
     (if objExists w (trns @ ''.preCustomStep'') then Inr trns
      else findGuideNode_loop w rest)"

definition findGuideNode :: "string \<Rightarrow> world \<Rightarrow> exn + string" where
  "findGuideNode defaultGuide w =
     (if objExists w (defaultGuide @ ''.preCustomStep'') then Inr defaultGuide
      else findGuideNode_loop w (transforms w))"

section \<open>extractCommonPath\<close>

text \<open>
  \<open>[item.split(" | ")[1] for item in items]\<close>: the second field of every item;
  IndexError at the first item that has no second field.
\<close>

fun second_fields :: "string list \<Rightarrow> exn + string list" where
  "second_fields [] = Inr []"
| "second_fields (item # items) =
     (case split_str item '' | '' of
        f0 # f1 # fs \<Rightarrow>
          (case second_fields items of Inl e \<Rightarrow> Inl e | Inr ps \<Rightarrow> Inr (f1 # ps))
      | _ \<Rightarrow> Inl (Exn IndexError ''list index out of range''))"

text \<open>
  \<open>os.path.commonpath\<close> of \<open>posixpath\<close>. The paths must be all absolute or all
  relative; empty and \<open>.\<close> components are dropped; the common components are those
  on which the least and the greatest component list (in Python's list order) agree
  from the left.
\<close>

definition min_of :: "'a::linorder \<Rightarrow> 'a list \<Rightarrow> 'a" where
  \<comment> \<open>\<open>min(x0, *xs)\<close>\<close>
  "min_of x xs = fold (\<lambda>y m. if y < m then y else m) xs x"

definition max_of :: "'a::linorder \<Rightarrow> 'a list \<Rightarrow> 'a" where
  "max_of x xs = fold (\<lambda>y m. if m < y then y else m) xs x"

fun common_loop :: "string list \<Rightarrow> string list \<Rightarrow> nat \<Rightarrow> string list \<Rightarrow> exn + string list" where
  \<comment> \<open>\<open>for i, c in enumerate(s1): if c != s2[i]: common = s1[:i]; break\<close>\<close>
  "common_loop s1 s2 i [] = Inr s1"
| "common_loop s1 s2 i (c # cs) =
     (if i < length s2
      then (if c \<noteq> s2 ! i then Inr (take i s1) else common_loop s1 s2 (Suc i) cs)
      else Inl (Exn IndexError ''list index out of range''))"

definition path_components :: "string \<Rightarrow> string list" where
  \<comment> \<open>\<open>[c for c in path.split(sep) if c and c != curdir]\<close>\<close>
  "path_components p = filter (\<lambda>c. c \<noteq> [] \<and> c \<noteq> ''.'') (split_str p ''/'')"

definition commonpath :: "string list \<Rightarrow> exn + string" where
  "commonpath paths =
     (case map path_components paths of
        [] \<Rightarrow> Inl (Exn ValueError ''commonpath() arg is an empty sequence'')
      | s # ss \<Rightarrow>
          (case remdups (map (\<lambda>p. take 1 p = ''/'') paths) of
             [isabs] \<Rightarrow>
               (case common_loop (min_of s ss) (max_of s ss) 0 (min_of s ss) of
                  Inl e \<Rightarrow> Inl e
                | Inr common \<Rightarrow> Inr ((if isabs then ''/'' else []) @ join_str ''/'' common))
           | _ \<Rightarrow>
               Inl (Exn ValueError
                      (''Can'' @ [CHR 0x27] @ ''t mix absolute and relative paths''))))"

definition extractCommonPath_body :: "string \<Rightarrow> exn + string" where
  "extractCommonPath_body inputString =
     (case second_fields (split_str inputString '','') of
        Inl e \<Rightarrow> Inl e
      | Inr paths \<Rightarrow>
          (case commonpath paths of
             Inl e \<Rightarrow> Inl e
           | Inr commonPath \<Rightarrow> Inr (replace_str commonPath [backslash] ''/'')))"

definition extractCommonPath :: "string \<Rightarrow> world \<Rightarrow> string \<times> world" where
  "extractCommonPath inputString w =
     (case extractCommonPath_body inputString of
        Inr commonPath \<Rightarrow> (commonPath, w)
      | Inl e \<Rightarrow> ([], cmds_warning (''Failed to extract common path: '' @ str_of e) w))"

section \<open>incrementVersion\<close>





fun decimal :: "nat \<Rightarrow> string" where
  \<comment> \<open>\<open>str(n)\<close>\<close>
  "decimal n =
     (if n < 10 then [char_of (48 + n)]
      else decimal (n div 10) @ [char_of (48 + n mod 10)])"

declare decimal.simps [simp del]



section \<open>duplicateFolder and the dialog's AddVer button\<close>




section \<open>updateCustomStepStrings\<close>

definition py_replace :: "string \<Rightarrow> string \<Rightarrow> string option \<Rightarrow> exn + string" where
  \<comment> \<open>\<open>s.replace(old, new)\<close> where \<open>new\<close> may be \<open>None\<close>\<close>
  "py_replace s old new =
     (case new of
        None \<Rightarrow> Inl (Exn TypeError ''replace() argument 2 must be str, not None'')
      | Some n \<Rightarrow> Inr (replace_str s old n))"

text \<open>Lines 300 to 313: the two writes, the success dialog, the console report.\<close>

definition write_back :: "string \<Rightarrow> string \<Rightarrow> string \<Rightarrow> world \<Rightarrow> (exn + unit) \<times> world" where
  "write_back guide preCustomStepString postCustomStepString w =
     (case setAttr (guide @ ''.preCustomStep'') preCustomStepString w of
        (Inl e, w1) \<Rightarrow> (Inl e, w1)
      | (Inr u, w1) \<Rightarrow>
          (case setAttr (guide @ ''.postCustomStep'') postCustomStepString w1 of
             (Inl e, w2) \<Rightarrow> (Inl e, w2)
           | (Inr u', w2) \<Rightarrow>
               (case confirmDialog ''Success'' ''Paths updated successfully.'' w2 of
                  (button, w3) \<Rightarrow>
                    (Inr (),
                     emit (Print (''[ Updated ] postCustomStepString: '' @ postCustomStepString))
                       (emit (Print (''[ Updated ] preCustomStepString: '' @ preCustomStepString))
                          (emit (Print ''## updateCustomStepStrings'') w3))))))"

definition missing_message :: "string list \<Rightarrow> string" where
  "missing_message missingFiles =
     ''The following files are missing:'' @ [newline, newline] @
     join_str [newline] missingFiles @
     [newline, newline] @ ''Do you want to continue with the changes?''"

text \<open>Lines 272 to 277: both attributes are read, then both are substituted.\<close>

definition read_and_substitute ::
  "string \<Rightarrow> string option \<Rightarrow> string \<Rightarrow> world \<Rightarrow> exn + string \<times> string" where
  "read_and_substitute guide newPath currentCommonPath w =
     (case getAttr w (guide @ ''.preCustomStep'') of
        Inl e \<Rightarrow> Inl e
      | Inr pre0 \<Rightarrow>
     (case getAttr w (guide @ ''.postCustomStep'') of
        Inl e \<Rightarrow> Inl e
      | Inr post0 \<Rightarrow>
     (case py_replace pre0 currentCommonPath newPath of
        Inl e \<Rightarrow> Inl e
      | Inr preCustomStepString \<Rightarrow>
     (case py_replace post0 currentCommonPath newPath of
        Inl e \<Rightarrow> Inl e
      | Inr postCustomStepString \<Rightarrow> Inr (preCustomStepString, postCustomStepString)))))"

text \<open>The body of the \<open>try\<close> block, lines 272 to 313.\<close>

definition updateCustomStepStrings_body ::
  "string \<Rightarrow> string option \<Rightarrow> string \<Rightarrow> world \<Rightarrow> (exn + unit) \<times> world" where
  "updateCustomStepStrings_body guide newPath currentCommonPath w =
     (case read_and_substitute guide newPath currentCommonPath w of
        Inl e \<Rightarrow> (Inl e, w)
      | Inr (preCustomStepString, postCustomStepString) \<Rightarrow>
     (case second_fields (split_str preCustomStepString '','') of
        Inl e \<Rightarrow> (Inl e, w)
      | Inr prePaths \<Rightarrow>
     (case second_fields (split_str postCustomStepString '','') of
        Inl e \<Rightarrow> (Inl e, w)
      | Inr postPaths \<Rightarrow>
     (case newPath of
        None \<Rightarrow>
          (Inl (Exn TypeError ''expected str, bytes or os.PathLike object, not NoneType''), w)
      | Some basePath \<Rightarrow>
     (case checkFileExistence basePath (prePaths @ postPaths) w of
        ((existingFiles, missingFiles), w1) \<Rightarrow>
          if missingFiles \<noteq> []
          then (case confirmDialog ''Missing Files'' (missing_message missingFiles) w1 of
                  (result, w2) \<Rightarrow>
                    if result = ''Cancel''
                    then (Inr (), cmds_warning ''Update process has been canceled by the user.'' w2)
                    else write_back guide preCustomStepString postCustomStepString w2)
          else write_back guide preCustomStepString postCustomStepString w1)))))"

definition updateCustomStepStrings ::
  "string \<Rightarrow> string option \<Rightarrow> string \<Rightarrow> world \<Rightarrow> (exn + unit) \<times> world" where
  "updateCustomStepStrings guide newPath currentCommonPath w =
     (case updateCustomStepStrings_body guide newPath currentCommonPath w of
        (Inl e, w1) \<Rightarrow> cmds_error (''Failed to update custom step strings: '' @ str_of e) w1
      | (Inr u, w1) \<Rightarrow> (Inr u, w1))"


section \<open>Vocabulary of the specification\<close>

subsection \<open>Path lists and their common directory\<close>







fun common_prefix :: "'a list list \<Rightarrow> 'a list" where
  \<comment> \<open>the longest list that every list of a non-empty collection starts with\<close>
  "common_prefix [] = []"
| "common_prefix [s] = s"
| "common_prefix (s # t # ts) = longest_common_prefix s (common_prefix (t # ts))"




subsection \<open>Version suffixes\<close>



subsection \<open>Observing a run\<close>

definition new_events :: "world \<Rightarrow> world \<Rightarrow> event list" where
  \<comment> \<open>what a run from \<open>w\<close> to \<open>w'\<close> added to the trace\<close>
  "new_events w w' = drop (length (trace w)) (trace w')"

fun is_write :: "event \<Rightarrow> bool" where
  "is_write (SetAttr plug v) = True"
| "is_write e = False"

fun is_success_dialog :: "event \<Rightarrow> bool" where
  "is_success_dialog (ConfirmDialog title message) = (title = ''Success'')"
| "is_success_dialog e = False"

text \<open>The console lines of one existence check.\<close>

definition check_log :: "string \<Rightarrow> string list \<Rightarrow> world \<Rightarrow> event list" where
  "check_log basePath paths w =
     Print ''## checkFileExistence'' #
     map (\<lambda>path. Print ((if path_exists w (full_path basePath path)
                          then ''[ Exists ]: '' else ''[ Missing ]: '') @
                         full_path basePath path)) paths @
     [Print []]"

subsection \<open>Example hosts\<close>

definition bare_world :: world where
  \<comment> \<open>empty scene, empty filesystem, a user who presses Continue, Maya's raising \<open>cmds.error\<close>\<close>
  "bare_world =
     \<lparr>attrs = Map.empty, transforms = [], files = {},
      respond = (\<lambda>title message. ''Continue''), copy_fault = (\<lambda>src dst. None),
      error_raises = True, trace = []\<rparr>"

definition guide_world :: world where
  \<comment> \<open>the end-to-end scenario of the specification\<close>
  "guide_world =
     bare_world
       \<lparr>attrs := [''guide.preCustomStep'' \<mapsto> ''step1 | /old/common/a.py'',
                 ''guide.postCustomStep'' \<mapsto> ''step2 | /old/common/b.py''],
        transforms := [''persp'', ''guide'']\<rparr>"

section \<open>Properties\<close>

subsection \<open>Host bookkeeping\<close>

lemma emit_fields [simp]:
  "attrs (emit e w) = attrs w"
  "transforms (emit e w) = transforms w"
  "files (emit e w) = files w"
  "respond (emit e w) = respond w"
  "copy_fault (emit e w) = copy_fault w"
  "error_raises (emit e w) = error_raises w"
  "trace (emit e w) = trace w @ [e]"
  by (simp_all add: emit_def)

lemma path_exists_emit [simp]: "path_exists (emit e w) = path_exists w"
  by (rule ext) (simp add: path_exists_def)

subsection \<open>Existence partitioning\<close>

lemma checkFileExistence_loop_lists:
  "fst (checkFileExistence_loop basePath paths (ex, mi) w) =
     (ex @ filter (path_exists w) (map (full_path basePath) paths),
      mi @ filter (\<lambda>p. \<not> path_exists w p) (map (full_path basePath) paths))"
proof (induction paths arbitrary: ex mi w)
  case Nil
  show ?case by simp
next
  case (Cons path paths)
  show ?case
    by (simp add: Cons.IH Let_def full_path_def)
qed

lemma checkFileExistence_lists:
  "fst (checkFileExistence basePath paths w) =
     (filter (path_exists w) (map (full_path basePath) paths),
      filter (\<lambda>p. \<not> path_exists w p) (map (full_path basePath) paths))"
proof -
  obtain r w' where run:
    "checkFileExistence_loop basePath paths ([], [])
       (emit (Print ''## checkFileExistence'') w) = (r, w')"
    by (cases "checkFileExistence_loop basePath paths ([], [])
                 (emit (Print ''## checkFileExistence'') w)")
  have "r = fst (checkFileExistence_loop basePath paths ([], [])
                   (emit (Print ''## checkFileExistence'') w))"
    by (simp add: run)
  then have "r = (filter (path_exists w) (map (full_path basePath) paths),
                  filter (\<lambda>p. \<not> path_exists w p) (map (full_path basePath) paths))"
    by (simp add: checkFileExistence_loop_lists)
  then show ?thesis
    by (simp add: checkFileExistence_def run)
qed

lemma partition_in_shuffles:
  "zs \<in> shuffles (filter P zs) (filter (\<lambda>z. \<not> P z) zs)"
  by (induction zs) (simp_all add: Cons_in_shuffles_iff)

text \<open>
  Claim C5, as the code has it. The two lists returned by \<open>checkFileExistence\<close> hold
  the full paths (base joined with the input path, backslashes turned into slashes),
  not the input paths. They partition the list of full paths: the first list is the
  full paths that exist, the second those that do not, each in input order; the full
  path of every input path is in exactly one of them; they share no element; and the
  list of full paths is an order-preserving merge of the two.
\<close>

theorem checkFileExistence_partitions_full_paths:
  "fst (checkFileExistence basePath paths w) =
     (filter (path_exists w) (map (full_path basePath) paths),
      filter (\<lambda>p. \<not> path_exists w p) (map (full_path basePath) paths))
   \<and> (\<forall>path \<in> set paths.
         (full_path basePath path \<in> set (fst (fst (checkFileExistence basePath paths w)))) \<noteq>
         (full_path basePath path \<in> set (snd (fst (checkFileExistence basePath paths w)))))
   \<and> set (fst (fst (checkFileExistence basePath paths w))) \<inter>
       set (snd (fst (checkFileExistence basePath paths w))) = {}
   \<and> map (full_path basePath) paths \<in>
       shuffles (fst (fst (checkFileExistence basePath paths w)))
                (snd (fst (checkFileExistence basePath paths w)))"
proof -
  let ?fulls = "map (full_path basePath) paths"
  have lists: "fst (checkFileExistence basePath paths w) =
     (filter (path_exists w) ?fulls, filter (\<lambda>p. \<not> path_exists w p) ?fulls)"
    by (rule checkFileExistence_lists)
  have one: "\<forall>path \<in> set paths.
         (full_path basePath path \<in> set (filter (path_exists w) ?fulls)) \<noteq>
         (full_path basePath path \<in> set (filter (\<lambda>p. \<not> path_exists w p) ?fulls))"
    by auto
  have disj: "set (filter (path_exists w) ?fulls) \<inter>
              set (filter (\<lambda>p. \<not> path_exists w p) ?fulls) = {}"
    by auto
  have shuf: "?fulls \<in> shuffles (filter (path_exists w) ?fulls)
                                 (filter (\<lambda>p. \<not> path_exists w p) ?fulls)"
    by (rule partition_in_shuffles)
  show ?thesis
    using one disj shuf by (simp add: lists)
qed

theorem checkFileExistence_partitions_witness:
  "fst (checkFileExistence ''/new'' [''a.py'', ''b.py''] (bare_world\<lparr>files := {''/new/a.py''}\<rparr>)) =
     ([''/new/a.py''], [''/new/b.py''])
   \<and> [''/new/a.py'', ''/new/b.py''] \<in> shuffles [''/new/a.py''] [''/new/b.py'']"
  using checkFileExistence_partitions_full_paths
          [of "''/new''" "[''a.py'', ''b.py'']" "bare_world\<lparr>files := {''/new/a.py''}\<rparr>"]
  by (simp add: full_path_def path_join_def path_exists_def bare_world_def backslash_def
        suffix_to_prefix)

text \<open>
  Claim C5 as stated speaks of the input paths. With base \<open>/b\<close> and the relative
  input path \<open>a.py\<close> the checker returns \<open>/b/a.py\<close>; the input path is in neither
  list.
\<close>

theorem checkFileExistence_input_paths_counterexample:
  "fst (checkFileExistence ''/b'' [''a.py''] bare_world) = ([], [''/b/a.py''])
   \<and> ''a.py'' \<notin> set (fst (fst (checkFileExistence ''/b'' [''a.py''] bare_world)))
               \<union> set (snd (fst (checkFileExistence ''/b'' [''a.py''] bare_world)))"
  by (simp add: checkFileExistence_lists full_path_def path_join_def path_exists_def
        bare_world_def backslash_def suffix_to_prefix)

subsection \<open>Guide locator\<close>

lemma findGuideNode_loop_find:
  "findGuideNode_loop w ts =
     (case find (\<lambda>t. objExists w (t @ ''.preCustomStep'')) ts of
        Some t \<Rightarrow> Inr t
      | None \<Rightarrow> findGuideNode_loop w [])"
  by (induction ts) simp_all

text \<open>
  Claim C8. \<open>findGuideNode\<close> returns the default candidate if its \<open>preCustomStep\<close>
  attribute exists; otherwise the first node of the transform listing, in listing
  order, whose \<open>preCustomStep\<close> attribute exists; and when neither the default nor any
  listed transform has the attribute it raises RuntimeError (there is no handler
  inside the function).
\<close>

theorem findGuideNode_first_match_or_raise:
  "(objExists w (defaultGuide @ ''.preCustomStep'') \<longrightarrow>
      findGuideNode defaultGuide w = Inr defaultGuide)
   \<and> (\<not> objExists w (defaultGuide @ ''.preCustomStep'') \<longrightarrow>
        (\<forall>t. find (\<lambda>t. objExists w (t @ ''.preCustomStep'')) (transforms w) = Some t \<longrightarrow>
             findGuideNode defaultGuide w = Inr t))
   \<and> (\<not> objExists w (defaultGuide @ ''.preCustomStep'') \<and>
       (\<forall>t \<in> set (transforms w). \<not> objExists w (t @ ''.preCustomStep'')) \<longrightarrow>
        findGuideNode defaultGuide w =
          Inl (Exn RuntimeError
                 (''No valid guide node with attribute '' @ [CHR 0x27] @ ''preCustomStep'' @
                  [CHR 0x27] @ '' found.'')))"
proof (intro conjI impI allI)
  assume "objExists w (defaultGuide @ ''.preCustomStep'')"
  then show "findGuideNode defaultGuide w = Inr defaultGuide"
    by (simp add: findGuideNode_def)
next
  fix t
  assume "\<not> objExists w (defaultGuide @ ''.preCustomStep'')"
    and "find (\<lambda>t. objExists w (t @ ''.preCustomStep'')) (transforms w) = Some t"
  then show "findGuideNode defaultGuide w = Inr t"
    by (simp add: findGuideNode_def findGuideNode_loop_find [of w "transforms w"])
next
  assume a: "\<not> objExists w (defaultGuide @ ''.preCustomStep'') \<and>
       (\<forall>t \<in> set (transforms w). \<not> objExists w (t @ ''.preCustomStep''))"
  then have "find (\<lambda>t. objExists w (t @ ''.preCustomStep'')) (transforms w) = None"
    by (simp add: find_None_iff)
  with a show "findGuideNode defaultGuide w =
          Inl (Exn RuntimeError
                 (''No valid guide node with attribute '' @ [CHR 0x27] @ ''preCustomStep'' @
                  [CHR 0x27] @ '' found.''))"
    by (simp add: findGuideNode_def findGuideNode_loop_find [of w "transforms w"])
qed

theorem findGuideNode_witness:
  "findGuideNode ''guide'' guide_world = Inr ''guide''
   \<and> findGuideNode ''rig'' (guide_world\<lparr>transforms := [''persp'', ''guide'', ''guide1'']\<rparr>) = Inr ''guide''
   \<and> findGuideNode ''guide'' bare_world =
       Inl (Exn RuntimeError
              (''No valid guide node with attribute '' @ [CHR 0x27] @ ''preCustomStep'' @
               [CHR 0x27] @ '' found.''))"
  using findGuideNode_first_match_or_raise [of guide_world "''guide''"]
        findGuideNode_first_match_or_raise
          [of "guide_world\<lparr>transforms := [''persp'', ''guide'', ''guide1'']\<rparr>" "''rig''"]
        findGuideNode_first_match_or_raise [of bare_world "''guide''"]
  by (simp add: objExists_def guide_world_def bare_world_def)

subsection \<open>What an existence check does to the world\<close>

lemma emit_eq: "emit e w = w\<lparr>trace := trace w @ [e]\<rparr>"
  by (simp add: emit_def)

lemma checkFileExistence_loop_world:
  "snd (checkFileExistence_loop basePath paths (ex, mi) w) =
     w\<lparr>trace := trace w @
          map (\<lambda>path. Print ((if path_exists w (full_path basePath path)
                               then ''[ Exists ]: '' else ''[ Missing ]: '') @
                              full_path basePath path)) paths\<rparr>"
proof (induction paths arbitrary: ex mi w)
  case Nil
  show ?case by simp
next
  case (Cons path paths)
  show ?case
    by (simp add: Cons.IH Let_def full_path_def emit_eq path_exists_def)
qed

lemma checkFileExistence_world:
  "snd (checkFileExistence basePath paths w) =
     w\<lparr>trace := trace w @ check_log basePath paths w\<rparr>"
proof -
  obtain r w' where run:
    "checkFileExistence_loop basePath paths ([], [])
       (emit (Print ''## checkFileExistence'') w) = (r, w')"
    by (cases "checkFileExistence_loop basePath paths ([], [])
                 (emit (Print ''## checkFileExistence'') w)")
  have "w' = snd (checkFileExistence_loop basePath paths ([], [])
                   (emit (Print ''## checkFileExistence'') w))"
    by (simp add: run)
  then have "w' = w\<lparr>trace := trace w @ Print ''## checkFileExistence'' #
          map (\<lambda>path. Print ((if path_exists w (full_path basePath path)
                               then ''[ Exists ]: '' else ''[ Missing ]: '') @
                              full_path basePath path)) paths\<rparr>"
    by (simp add: checkFileExistence_loop_world emit_eq path_exists_def)
  then show ?thesis
    unfolding checkFileExistence_def run by (simp add: check_log_def emit_eq)
qed

lemma checkFileExistence_eq:
  "checkFileExistence basePath paths w =
     ((filter (path_exists w) (map (full_path basePath) paths),
       filter (\<lambda>p. \<not> path_exists w p) (map (full_path basePath) paths)),
      w\<lparr>trace := trace w @ check_log basePath paths w\<rparr>)"
  using checkFileExistence_lists [of basePath paths w]
        checkFileExistence_world [of basePath paths w]
  by (cases "checkFileExistence basePath paths w") simp

lemma check_log_no_write: "\<not> list_ex is_write (check_log basePath paths w)"
  by (simp add: check_log_def list_ex_iff image_iff)

lemma check_log_no_success: "\<not> list_ex is_success_dialog (check_log basePath paths w)"
  by (simp add: check_log_def list_ex_iff image_iff)

subsection \<open>The attribute updater\<close>

lemma replace_str_absent: "\<not> sublist old s \<Longrightarrow> replace_str s old new = s"
proof (induction s)
  case Nil
  then show ?case by auto
next
  case (Cons c cs)
  from Cons.prems have "old \<noteq> []" by auto
  moreover from Cons.prems have "\<not> prefix old (c # cs)" "\<not> sublist old cs"
    by (auto simp: sublist_Cons_right)
  ultimately show ?case using Cons.IH by simp
qed

lemma read_and_substitute_Inr:
  "read_and_substitute guide newPath common w = Inr (pre, post) \<longleftrightarrow>
     (\<exists>pre0 post0 n. attrs w (guide @ ''.preCustomStep'') = Some pre0 \<and>
        attrs w (guide @ ''.postCustomStep'') = Some post0 \<and> newPath = Some n \<and>
        pre = replace_str pre0 common n \<and> post = replace_str post0 common n)"
  by (auto simp: read_and_substitute_def getAttr_def py_replace_def
           split: option.splits)

lemma write_back_run:
  assumes "attrs w (guide @ ''.preCustomStep'') \<noteq> None"
    and "attrs w (guide @ ''.postCustomStep'') \<noteq> None"
  shows "write_back guide pre post w =
     (Inr (),
      w\<lparr>attrs := (attrs w)(guide @ ''.preCustomStep'' \<mapsto> pre, guide @ ''.postCustomStep'' \<mapsto> post),
        trace := trace w @
          [SetAttr (guide @ ''.preCustomStep'') pre,
           SetAttr (guide @ ''.postCustomStep'') post,
           ConfirmDialog ''Success'' ''Paths updated successfully.'',
           Print ''## updateCustomStepStrings'',
           Print (''[ Updated ] preCustomStepString: '' @ pre),
           Print (''[ Updated ] postCustomStepString: '' @ post)]\<rparr>)"
  using assms
  by (auto simp: write_back_def setAttr_def confirmDialog_def emit_eq)

lemma new_events_append [simp]: "new_events w (w'\<lparr>trace := trace w @ es\<rparr>) = es"
  by (simp add: new_events_def)

lemma new_events_emit [simp]: "new_events w (emit e w) = [e]"
  by (simp add: new_events_def)


lemma update_cancel_run:
  assumes subst: "read_and_substitute guide (Some newPath) common w = Inr (pre, post)"
    and pre: "second_fields (split_str pre '','') = Inr prePaths"
    and post: "second_fields (split_str post '','') = Inr postPaths"
    and missing: "snd (fst (checkFileExistence newPath (prePaths @ postPaths) w)) \<noteq> []"
    and cancel: "respond w ''Missing Files''
         (missing_message (snd (fst (checkFileExistence newPath (prePaths @ postPaths) w)))) =
       ''Cancel''"
  shows "updateCustomStepStrings guide (Some newPath) common w =
     (Inr (),
      w\<lparr>trace := trace w @ check_log newPath (prePaths @ postPaths) w @
         [ConfirmDialog ''Missing Files''
            (missing_message (snd (fst (checkFileExistence newPath (prePaths @ postPaths) w)))),
          Warning ''Update process has been canceled by the user.'']\<rparr>)"
  using missing cancel
  by (simp add: updateCustomStepStrings_def updateCustomStepStrings_body_def subst pre post
        checkFileExistence_eq confirmDialog_def cmds_warning_def emit_eq)

text \<open>
  Claim C3. In a run of \<open>updateCustomStepStrings\<close> that reaches the existence check,
  finds at least one file missing and gets the answer Cancel from the user, the
  function returns normally, the attribute store is what it was, the events of the
  run are the console lines of the check, the Missing Files dialog and the warning
  \<open>Update process has been canceled by the user.\<close>; among them there is no
  attribute write and no Success dialog.
\<close>

theorem update_cancel_writes_nothing:
  assumes "read_and_substitute guide (Some newPath) common w = Inr (pre, post)"
    and "second_fields (split_str pre '','') = Inr prePaths"
    and "second_fields (split_str post '','') = Inr postPaths"
    and "snd (fst (checkFileExistence newPath (prePaths @ postPaths) w)) \<noteq> []"
    and "respond w ''Missing Files''
         (missing_message (snd (fst (checkFileExistence newPath (prePaths @ postPaths) w)))) =
       ''Cancel''"
  shows "fst (updateCustomStepStrings guide (Some newPath) common w) = Inr ()
    \<and> attrs (snd (updateCustomStepStrings guide (Some newPath) common w)) = attrs w
    \<and> Warning ''Update process has been canceled by the user.'' \<in>
        set (new_events w (snd (updateCustomStepStrings guide (Some newPath) common w)))
    \<and> \<not> list_ex is_write
          (new_events w (snd (updateCustomStepStrings guide (Some newPath) common w)))
    \<and> \<not> list_ex is_success_dialog
          (new_events w (snd (updateCustomStepStrings guide (Some newPath) common w)))"
proof -
  let ?ev = "check_log newPath (prePaths @ postPaths) w @
         [ConfirmDialog ''Missing Files''
            (missing_message (snd (fst (checkFileExistence newPath (prePaths @ postPaths) w)))),
          Warning ''Update process has been canceled by the user.'']"
  have run: "updateCustomStepStrings guide (Some newPath) common w =
      (Inr (), w\<lparr>trace := trace w @ ?ev\<rparr>)"
    using update_cancel_run [OF assms] by simp
  have "\<not> list_ex is_write ?ev" "\<not> list_ex is_success_dialog ?ev"
    using check_log_no_write [of newPath "prePaths @ postPaths" w]
          check_log_no_success [of newPath "prePaths @ postPaths" w]
    by simp_all
  then show ?thesis
    unfolding run by simp
qed

theorem update_cancel_witness:
  "fst (updateCustomStepStrings ''guide'' (Some ''/new/common'') ''/old/common''
         (guide_world\<lparr>files := {''/new/common/a.py''},
                      respond := (\<lambda>title message. ''Cancel'')\<rparr>)) = Inr ()
   \<and> attrs (snd (updateCustomStepStrings ''guide'' (Some ''/new/common'') ''/old/common''
         (guide_world\<lparr>files := {''/new/common/a.py''},
                      respond := (\<lambda>title message. ''Cancel'')\<rparr>))) = attrs guide_world"
proof -
  let ?w = "guide_world\<lparr>files := {''/new/common/a.py''},
                      respond := (\<lambda>title message. ''Cancel'')\<rparr>"
  have h1: "read_and_substitute ''guide'' (Some ''/new/common'') ''/old/common'' ?w =
      Inr (''step1 | /new/common/a.py'', ''step2 | /new/common/b.py'')"
    by (simp add: read_and_substitute_def getAttr_def py_replace_def guide_world_def
          bare_world_def)
  have h2: "second_fields (split_str ''step1 | /new/common/a.py'' '','') =
      Inr [''/new/common/a.py'']"
    by (simp add: split_str_def)
  have h3: "second_fields (split_str ''step2 | /new/common/b.py'' '','') =
      Inr [''/new/common/b.py'']"
    by (simp add: split_str_def)
  have h4: "snd (fst (checkFileExistence ''/new/common''
        ([''/new/common/a.py''] @ [''/new/common/b.py'']) ?w)) \<noteq> []"
    by (simp add: checkFileExistence_eq full_path_def path_join_def path_exists_def
          backslash_def guide_world_def bare_world_def)
  have h5: "respond ?w ''Missing Files''
         (missing_message (snd (fst (checkFileExistence ''/new/common''
        ([''/new/common/a.py''] @ [''/new/common/b.py'']) ?w)))) = ''Cancel''"
    by simp
  show ?thesis
    using update_cancel_writes_nothing [OF h1 h2 h3 h4 h5]
    by (simp add: guide_world_def bare_world_def)
qed


lemma cmds_error_world:
  "snd (cmds_error msg w) = w\<lparr>trace := trace w @ [Error msg]\<rparr>"
  by (simp add: cmds_error_def emit_eq)

lemma update_failed_phase_run:
  assumes "read_and_substitute guide newPath common w = Inl e"
  shows "updateCustomStepStrings guide newPath common w =
     cmds_error (''Failed to update custom step strings: '' @ str_of e) w"
  using assms by (simp add: updateCustomStepStrings_def updateCustomStepStrings_body_def)

lemma update_writes_none_or_both:
  "filter is_write (new_events w (snd (updateCustomStepStrings guide newPath common w))) = []
   \<or> (\<exists>pre post. read_and_substitute guide newPath common w = Inr (pre, post) \<and>
        filter is_write (new_events w (snd (updateCustomStepStrings guide newPath common w))) =
          [SetAttr (guide @ ''.preCustomStep'') pre, SetAttr (guide @ ''.postCustomStep'') post])"
proof (cases "read_and_substitute guide newPath common w")
  case (Inl e)
  then show ?thesis
    by (simp add: update_failed_phase_run cmds_error_world)
next
  case (Inr pp)
  obtain pre post where pp: "pp = (pre, post)" by (cases pp)
  with Inr have subst: "read_and_substitute guide newPath common w = Inr (pre, post)" by simp
  then obtain n where n: "newPath = Some n"
    and a1: "attrs w (guide @ ''.preCustomStep'') \<noteq> None"
    and a2: "attrs w (guide @ ''.postCustomStep'') \<noteq> None"
    by (auto simp: read_and_substitute_Inr)
  have nowrite: "filter is_write (check_log b ps w) = []" for b ps
    using check_log_no_write [of b ps w] by (simp add: list_ex_iff filter_empty_conv)
  show ?thesis
  proof (cases "second_fields (split_str pre '','')")
    case (Inl e1)
    then show ?thesis
      by (simp add: updateCustomStepStrings_def updateCustomStepStrings_body_def subst
            cmds_error_world)
  next
    case pre: (Inr prePaths)
    show ?thesis
    proof (cases "second_fields (split_str post '','')")
      case (Inl e2)
      then show ?thesis
        by (simp add: updateCustomStepStrings_def updateCustomStepStrings_body_def subst pre
              cmds_error_world)
    next
      case post: (Inr postPaths)
      let ?w1 = "w\<lparr>trace := trace w @ check_log n (prePaths @ postPaths) w\<rparr>"
      let ?missing = "filter (\<lambda>p. \<not> path_exists w p) (map (full_path n) (prePaths @ postPaths))"
      let ?w2 = "w\<lparr>trace := trace w @ check_log n (prePaths @ postPaths) w @
                    [ConfirmDialog ''Missing Files'' (missing_message ?missing)]\<rparr>"
      have wb1: "write_back guide pre post ?w1 = (Inr (),
          ?w1\<lparr>attrs := (attrs ?w1)(guide @ ''.preCustomStep'' \<mapsto> pre,
                                     guide @ ''.postCustomStep'' \<mapsto> post),
               trace := trace ?w1 @
                 [SetAttr (guide @ ''.preCustomStep'') pre,
                  SetAttr (guide @ ''.postCustomStep'') post,
                  ConfirmDialog ''Success'' ''Paths updated successfully.'',
                  Print ''## updateCustomStepStrings'',
                  Print (''[ Updated ] preCustomStepString: '' @ pre),
                  Print (''[ Updated ] postCustomStepString: '' @ post)]\<rparr>)"
        by (rule write_back_run) (simp_all add: a1 a2)
      have wb2: "write_back guide pre post ?w2 = (Inr (),
          ?w2\<lparr>attrs := (attrs ?w2)(guide @ ''.preCustomStep'' \<mapsto> pre,
                                     guide @ ''.postCustomStep'' \<mapsto> post),
               trace := trace ?w2 @
                 [SetAttr (guide @ ''.preCustomStep'') pre,
                  SetAttr (guide @ ''.postCustomStep'') post,
                  ConfirmDialog ''Success'' ''Paths updated successfully.'',
                  Print ''## updateCustomStepStrings'',
                  Print (''[ Updated ] preCustomStepString: '' @ pre),
                  Print (''[ Updated ] postCustomStepString: '' @ post)]\<rparr>)"
        by (rule write_back_run) (simp_all add: a1 a2)
      show ?thesis
        using subst
        by (simp add: updateCustomStepStrings_def updateCustomStepStrings_body_def n pre post
              checkFileExistence_eq confirmDialog_def cmds_warning_def wb1 wb2 new_events_def
              nowrite emit_eq del: map_append)
    qed
  qed
qed

text \<open>
  Claim C4. When reading the two attributes or substituting in them raises, the run
  of \<open>updateCustomStepStrings\<close> is just the error report: the attribute store is
  unchanged and the only event is the error, so neither attribute has been written.
  In every run, an attribute write is issued only after reading and substituting
  have produced both strings from the world the run started in, and what it writes
  is one of these two strings to its own attribute.
\<close>

theorem update_computes_before_writing:
  "(\<forall>e. read_and_substitute guide newPath common w = Inl e \<longrightarrow>
        attrs (snd (updateCustomStepStrings guide newPath common w)) = attrs w \<and>
        new_events w (snd (updateCustomStepStrings guide newPath common w)) =
          [Error (''Failed to update custom step strings: '' @ str_of e)] \<and>
        \<not> list_ex is_write
            (new_events w (snd (updateCustomStepStrings guide newPath common w))))
   \<and> (\<forall>ev \<in> set (new_events w (snd (updateCustomStepStrings guide newPath common w))).
        is_write ev \<longrightarrow>
        (\<exists>pre post. read_and_substitute guide newPath common w = Inr (pre, post) \<and>
           (ev = SetAttr (guide @ ''.preCustomStep'') pre \<or>
            ev = SetAttr (guide @ ''.postCustomStep'') post)))"
proof (intro conjI allI impI ballI)
  fix e
  assume "read_and_substitute guide newPath common w = Inl e"
  then have run: "updateCustomStepStrings guide newPath common w =
      cmds_error (''Failed to update custom step strings: '' @ str_of e) w"
    by (rule update_failed_phase_run)
  show "attrs (snd (updateCustomStepStrings guide newPath common w)) = attrs w"
    by (simp add: run cmds_error_world)
  show "new_events w (snd (updateCustomStepStrings guide newPath common w)) =
          [Error (''Failed to update custom step strings: '' @ str_of e)]"
    by (simp add: run cmds_error_world)
  then show "\<not> list_ex is_write
            (new_events w (snd (updateCustomStepStrings guide newPath common w)))"
    by simp
next
  fix ev
  let ?evs = "new_events w (snd (updateCustomStepStrings guide newPath common w))"
  assume "ev \<in> set ?evs" "is_write ev"
  then have ev: "ev \<in> set (filter is_write ?evs)" by simp
  then have "filter is_write ?evs \<noteq> []"
    by (metis empty_iff list.set(1))
  with update_writes_none_or_both [of w guide newPath common]
  obtain pre post where "read_and_substitute guide newPath common w = Inr (pre, post)"
    and "filter is_write ?evs =
      [SetAttr (guide @ ''.preCustomStep'') pre, SetAttr (guide @ ''.postCustomStep'') post]"
    by blast
  with ev show "\<exists>pre post. read_and_substitute guide newPath common w = Inr (pre, post) \<and>
           (ev = SetAttr (guide @ ''.preCustomStep'') pre \<or>
            ev = SetAttr (guide @ ''.postCustomStep'') post)"
    by (auto simp del: set_filter)
qed

theorem update_computes_before_writing_witness:
  "read_and_substitute ''guide'' (Some ''/new/common'') ''/old/common''
      (guide_world\<lparr>attrs := [''guide.preCustomStep'' \<mapsto> ''step1 | /old/common/a.py'']\<rparr>) =
     Inl (Exn ValueError ''No object matches name: guide.postCustomStep'')
   \<and> attrs (snd (updateCustomStepStrings ''guide'' (Some ''/new/common'') ''/old/common''
        (guide_world\<lparr>attrs := [''guide.preCustomStep'' \<mapsto> ''step1 | /old/common/a.py'']\<rparr>))) =
       [''guide.preCustomStep'' \<mapsto> ''step1 | /old/common/a.py'']
   \<and> new_events
        (guide_world\<lparr>attrs := [''guide.preCustomStep'' \<mapsto> ''step1 | /old/common/a.py'']\<rparr>)
        (snd (updateCustomStepStrings ''guide'' (Some ''/new/common'') ''/old/common''
          (guide_world\<lparr>attrs := [''guide.preCustomStep'' \<mapsto> ''step1 | /old/common/a.py'']\<rparr>))) =
       [Error (''Failed to update custom step strings: No object matches name: guide.postCustomStep'')]"
proof -
  let ?w = "guide_world\<lparr>attrs := [''guide.preCustomStep'' \<mapsto> ''step1 | /old/common/a.py'']\<rparr>"
  have h: "read_and_substitute ''guide'' (Some ''/new/common'') ''/old/common'' ?w =
     Inl (Exn ValueError ''No object matches name: guide.postCustomStep'')"
    by (simp add: read_and_substitute_def getAttr_def)
  show ?thesis
    using h update_computes_before_writing
            [of "''guide''" "Some ''/new/common''" "''/old/common''" ?w]
    by simp
qed


lemma update_proceed_run:
  assumes subst: "read_and_substitute guide (Some newPath) common w = Inr (pre, post)"
    and pre: "second_fields (split_str pre '','') = Inr prePaths"
    and post: "second_fields (split_str post '','') = Inr postPaths"
    and go: "snd (fst (checkFileExistence newPath (prePaths @ postPaths) w)) = [] \<or>
       respond w ''Missing Files''
         (missing_message (snd (fst (checkFileExistence newPath (prePaths @ postPaths) w)))) \<noteq>
       ''Cancel''"
  shows "updateCustomStepStrings guide (Some newPath) common w =
     (Inr (),
      w\<lparr>attrs := (attrs w)(guide @ ''.preCustomStep'' \<mapsto> pre,
                            guide @ ''.postCustomStep'' \<mapsto> post),
        trace := trace w @ check_log newPath (prePaths @ postPaths) w @
         (if snd (fst (checkFileExistence newPath (prePaths @ postPaths) w)) = [] then []
          else [ConfirmDialog ''Missing Files''
                  (missing_message
                     (snd (fst (checkFileExistence newPath (prePaths @ postPaths) w))))]) @
         [SetAttr (guide @ ''.preCustomStep'') pre,
          SetAttr (guide @ ''.postCustomStep'') post,
          ConfirmDialog ''Success'' ''Paths updated successfully.'',
          Print ''## updateCustomStepStrings'',
          Print (''[ Updated ] preCustomStepString: '' @ pre),
          Print (''[ Updated ] postCustomStepString: '' @ post)]\<rparr>)"
proof -
  from subst have a1: "attrs w (guide @ ''.preCustomStep'') \<noteq> None"
    and a2: "attrs w (guide @ ''.postCustomStep'') \<noteq> None"
    by (auto simp: read_and_substitute_Inr)
  let ?missing = "filter (\<lambda>p. \<not> path_exists w p) (map (full_path newPath) (prePaths @ postPaths))"
  let ?w1 = "w\<lparr>trace := trace w @ check_log newPath (prePaths @ postPaths) w\<rparr>"
  let ?w2 = "w\<lparr>trace := trace w @ check_log newPath (prePaths @ postPaths) w @
                    [ConfirmDialog ''Missing Files'' (missing_message ?missing)]\<rparr>"
  note wb1 = write_back_run [of ?w1 guide pre post]
  note wb2 = write_back_run [of ?w2 guide pre post]
  show ?thesis
  proof (cases "?missing = []")
    case True
    then show ?thesis
      using a1 a2
      by (simp add: updateCustomStepStrings_def updateCustomStepStrings_body_def subst pre post
            checkFileExistence_eq wb1 del: map_append)
  next
    case False
    with go have "respond w ''Missing Files'' (missing_message ?missing) \<noteq> ''Cancel''"
      by (simp add: checkFileExistence_eq del: map_append)
    with False show ?thesis
      using a1 a2
      by (simp add: updateCustomStepStrings_def updateCustomStepStrings_body_def subst pre post
            checkFileExistence_eq confirmDialog_def wb2 emit_eq del: map_append)
  qed
qed

text \<open>
  Claim C2, as the code has it. When the old common path occurs in neither attribute
  string, substitution leaves both strings as they are. The two attributes are then
  written back, with these unchanged values, in the runs that get as far as the
  writes: both strings parse into paths and either no referenced file is missing or
  the user does not answer Cancel. The attribute store after such a run equals the
  store before it.
\<close>

theorem update_without_occurrence:
  assumes "attrs w (guide @ ''.preCustomStep'') = Some pre0"
    and "attrs w (guide @ ''.postCustomStep'') = Some post0"
    and "\<not> sublist common pre0"
    and "\<not> sublist common post0"
  shows "read_and_substitute guide (Some newPath) common w = Inr (pre0, post0)
    \<and> (\<forall>prePaths postPaths.
          second_fields (split_str pre0 '','') = Inr prePaths \<and>
          second_fields (split_str post0 '','') = Inr postPaths \<and>
          (snd (fst (checkFileExistence newPath (prePaths @ postPaths) w)) = [] \<or>
           respond w ''Missing Files''
             (missing_message
                (snd (fst (checkFileExistence newPath (prePaths @ postPaths) w)))) \<noteq>
           ''Cancel'') \<longrightarrow>
          fst (updateCustomStepStrings guide (Some newPath) common w) = Inr () \<and>
          filter is_write
            (new_events w (snd (updateCustomStepStrings guide (Some newPath) common w))) =
            [SetAttr (guide @ ''.preCustomStep'') pre0,
             SetAttr (guide @ ''.postCustomStep'') post0] \<and>
          attrs (snd (updateCustomStepStrings guide (Some newPath) common w)) = attrs w)"
proof -
  have subst: "read_and_substitute guide (Some newPath) common w = Inr (pre0, post0)"
    using assms by (simp add: read_and_substitute_Inr replace_str_absent)
  have same: "(attrs w)(guide @ ''.preCustomStep'' \<mapsto> pre0,
                        guide @ ''.postCustomStep'' \<mapsto> post0) = attrs w"
    using assms(1,2) by (auto simp: fun_eq_iff)
  have nowrite: "filter is_write (check_log b ps w) = []" for b ps
    using check_log_no_write [of b ps w] by (simp add: list_ex_iff filter_empty_conv)
  show ?thesis
  proof (intro conjI allI impI)
    show "read_and_substitute guide (Some newPath) common w = Inr (pre0, post0)"
      by (rule subst)
  next
    fix prePaths postPaths
    assume h: "second_fields (split_str pre0 '','') = Inr prePaths \<and>
          second_fields (split_str post0 '','') = Inr postPaths \<and>
          (snd (fst (checkFileExistence newPath (prePaths @ postPaths) w)) = [] \<or>
           respond w ''Missing Files''
             (missing_message
                (snd (fst (checkFileExistence newPath (prePaths @ postPaths) w)))) \<noteq>
           ''Cancel'')"
    note run = update_proceed_run [OF subst conjunct1 [OF h] conjunct1 [OF conjunct2 [OF h]]
                 conjunct2 [OF conjunct2 [OF h]]]
    show "fst (updateCustomStepStrings guide (Some newPath) common w) = Inr ()"
      by (simp add: run)
    show "filter is_write
            (new_events w (snd (updateCustomStepStrings guide (Some newPath) common w))) =
            [SetAttr (guide @ ''.preCustomStep'') pre0,
             SetAttr (guide @ ''.postCustomStep'') post0]"
      by (simp add: run new_events_def nowrite)
    show "attrs (snd (updateCustomStepStrings guide (Some newPath) common w)) = attrs w"
      by (simp add: run same)
  qed
qed

lemma guide_world_no_occurrence:
  "\<not> sublist ''/nowhere'' ''step1 | /old/common/a.py''"
  "\<not> sublist ''/nowhere'' ''step2 | /old/common/b.py''"
  by code_simp+

theorem update_without_occurrence_witness:
  "read_and_substitute ''guide'' (Some ''/new/common'') ''/nowhere''
      (guide_world\<lparr>files := {''/old/common/a.py'', ''/old/common/b.py''}\<rparr>) =
     Inr (''step1 | /old/common/a.py'', ''step2 | /old/common/b.py'')
   \<and> filter is_write
        (new_events (guide_world\<lparr>files := {''/old/common/a.py'', ''/old/common/b.py''}\<rparr>)
          (snd (updateCustomStepStrings ''guide'' (Some ''/new/common'') ''/nowhere''
             (guide_world\<lparr>files := {''/old/common/a.py'', ''/old/common/b.py''}\<rparr>)))) =
       [SetAttr ''guide.preCustomStep'' ''step1 | /old/common/a.py'',
        SetAttr ''guide.postCustomStep'' ''step2 | /old/common/b.py'']"
proof -
  let ?w = "guide_world\<lparr>files := {''/old/common/a.py'', ''/old/common/b.py''}\<rparr>"
  have h1: "attrs ?w (''guide'' @ ''.preCustomStep'') = Some ''step1 | /old/common/a.py''"
    by (simp add: guide_world_def)
  have h2: "attrs ?w (''guide'' @ ''.postCustomStep'') = Some ''step2 | /old/common/b.py''"
    by (simp add: guide_world_def)
  have p1: "second_fields (split_str ''step1 | /old/common/a.py'' '','') =
      Inr [''/old/common/a.py'']"
    by (simp add: split_str_def)
  have p2: "second_fields (split_str ''step2 | /old/common/b.py'' '','') =
      Inr [''/old/common/b.py'']"
    by (simp add: split_str_def)
  have m: "snd (fst (checkFileExistence ''/new/common''
        ([''/old/common/a.py''] @ [''/old/common/b.py'']) ?w)) = []"
    by (simp add: checkFileExistence_eq full_path_def path_join_def path_exists_def
          backslash_def guide_world_def bare_world_def)
  show ?thesis
    using update_without_occurrence [OF h1 h2 guide_world_no_occurrence,
            of "''/new/common''"] p1 p2 m
    by simp
qed

text \<open>
  Claim C2 as stated promises the write for every pair of strings without an
  occurrence. Here the old common path occurs in neither string, both referenced
  files are missing and the user answers Cancel: nothing is written.
\<close>

theorem update_without_occurrence_counterexample:
  "\<not> sublist ''/nowhere'' ''step1 | /old/common/a.py''
   \<and> \<not> sublist ''/nowhere'' ''step2 | /old/common/b.py''
   \<and> attrs guide_world ''guide.preCustomStep'' = Some ''step1 | /old/common/a.py''
   \<and> attrs guide_world ''guide.postCustomStep'' = Some ''step2 | /old/common/b.py''
   \<and> \<not> list_ex is_write
         (new_events (guide_world\<lparr>respond := (\<lambda>title message. ''Cancel'')\<rparr>)
            (snd (updateCustomStepStrings ''guide'' (Some ''/new/common'') ''/nowhere''
               (guide_world\<lparr>respond := (\<lambda>title message. ''Cancel'')\<rparr>))))"
proof -
  let ?w = "guide_world\<lparr>respond := (\<lambda>title message. ''Cancel'')\<rparr>"
  have h1: "read_and_substitute ''guide'' (Some ''/new/common'') ''/nowhere'' ?w =
      Inr (''step1 | /old/common/a.py'', ''step2 | /old/common/b.py'')"
    by (simp add: read_and_substitute_Inr guide_world_def
          replace_str_absent [OF guide_world_no_occurrence(1)]
          replace_str_absent [OF guide_world_no_occurrence(2)])
  have h2: "second_fields (split_str ''step1 | /old/common/a.py'' '','') =
      Inr [''/old/common/a.py'']"
    by (simp add: split_str_def)
  have h3: "second_fields (split_str ''step2 | /old/common/b.py'' '','') =
      Inr [''/old/common/b.py'']"
    by (simp add: split_str_def)
  have h4: "snd (fst (checkFileExistence ''/new/common''
        ([''/old/common/a.py''] @ [''/old/common/b.py'']) ?w)) \<noteq> []"
    by (simp add: checkFileExistence_eq full_path_def path_join_def path_exists_def
          backslash_def guide_world_def bare_world_def)
  have h5: "respond ?w ''Missing Files''
         (missing_message (snd (fst (checkFileExistence ''/new/common''
        ([''/old/common/a.py''] @ [''/old/common/b.py'']) ?w)))) = ''Cancel''"
    by simp
  have "\<not> list_ex is_write
         (new_events ?w (snd (updateCustomStepStrings ''guide'' (Some ''/new/common'')
            ''/nowhere'' ?w)))"
    using check_log_no_write [of "''/new/common''" "[''/old/common/a.py''] @ [''/old/common/b.py'']" ?w]
    unfolding update_cancel_run [OF h1 h2 h3 h4 h5] by (simp add: new_events_def)
  then show ?thesis
    using guide_world_no_occurrence by (simp add: guide_world_def)
qed

subsection \<open>Folder duplication\<close>







subsection \<open>Splitting\<close>

lemma split_from_absent:
  "\<not> sublist sep s \<Longrightarrow> split_from sep cur s = [cur @ s]"
proof (induction s arbitrary: cur)
  case Nil
  show ?case by simp
next
  case (Cons c cs)
  from Cons.prems have "\<not> prefix sep (c # cs)" "\<not> sublist sep cs"
    by (auto simp: sublist_Cons_right)
  then show ?case
    using Cons.IH [of "cur @ [c]"] by simp
qed

lemma split_str_absent: "\<not> sublist sep s \<Longrightarrow> split_str s sep = [s]"
  by (simp add: split_str_def split_from_absent)

lemma second_fields_malformed:
  "\<exists>item \<in> set items. \<not> sublist '' | '' item \<Longrightarrow>
     second_fields items = Inl (Exn IndexError ''list index out of range'')"
proof (induction items)
  case Nil
  then show ?case by simp
next
  case (Cons item items)
  show ?case
  proof (cases "sublist '' | '' item")
    case True
    with Cons.prems have "\<exists>item \<in> set items. \<not> sublist '' | '' item" by simp
    then have "second_fields items = Inl (Exn IndexError ''list index out of range'')"
      by (rule Cons.IH)
    then show ?thesis
      by (simp split: list.splits)
  next
    case False
    then show ?thesis
      by (simp add: split_str_absent)
  qed
qed

text \<open>
  Claim C6. \<open>extractCommonPath\<close> is a total function into strings: no exception
  leaves it. When some comma-separated entry of the input has no \<open>" | "\<close> separator
  (the empty input is such an input, its only entry being empty), it logs the warning
  for the IndexError and returns the empty string. On every input whatever, either
  nothing is logged, or exactly one warning is logged and the result is empty.
\<close>

theorem extractCommonPath_malformed:
  "((\<exists>item \<in> set (split_str inputString '',''). \<not> sublist '' | '' item) \<longrightarrow>
      extractCommonPath inputString w =
        ([], cmds_warning ''Failed to extract common path: list index out of range'' w))
   \<and> (new_events w (snd (extractCommonPath inputString w)) = []
      \<or> (fst (extractCommonPath inputString w) = [] \<and>
          (\<exists>msg. new_events w (snd (extractCommonPath inputString w)) = [Warning msg])))"
proof (intro conjI impI)
  assume "\<exists>item \<in> set (split_str inputString '',''). \<not> sublist '' | '' item"
  then have "second_fields (split_str inputString '','') =
      Inl (Exn IndexError ''list index out of range'')"
    by (rule second_fields_malformed)
  then show "extractCommonPath inputString w =
        ([], cmds_warning ''Failed to extract common path: list index out of range'' w)"
    by (simp add: extractCommonPath_def extractCommonPath_body_def)
next
  show "new_events w (snd (extractCommonPath inputString w)) = []
      \<or> (fst (extractCommonPath inputString w) = [] \<and>
          (\<exists>msg. new_events w (snd (extractCommonPath inputString w)) = [Warning msg]))"
    by (cases "extractCommonPath_body inputString")
       (simp_all add: extractCommonPath_def cmds_warning_def new_events_def)
qed

theorem extractCommonPath_malformed_witness:
  "(\<exists>item \<in> set (split_str ''a | /x/y/1.txt,b'' '',''). \<not> sublist '' | '' item)
   \<and> extractCommonPath ''a | /x/y/1.txt,b'' bare_world =
       ([], cmds_warning ''Failed to extract common path: list index out of range'' bare_world)
   \<and> (\<exists>item \<in> set (split_str [] '',''). \<not> sublist '' | '' item)
   \<and> extractCommonPath [] bare_world =
       ([], cmds_warning ''Failed to extract common path: list index out of range'' bare_world)"
proof -
  have h1: "\<exists>item \<in> set (split_str ''a | /x/y/1.txt,b'' '',''). \<not> sublist '' | '' item"
    by code_simp
  have h2: "\<exists>item \<in> set (split_str [] '',''). \<not> sublist '' | '' item"
    by code_simp
  show ?thesis
    using h1 h2 extractCommonPath_malformed [of "''a | /x/y/1.txt,b''" bare_world]
      extractCommonPath_malformed [of "[]" bare_world]
    by blast
qed

subsection \<open>The version pattern\<close>

lemma not_digit [simp]:
  "\<not> is_digit (CHR ''v'')" "\<not> is_digit (CHR ''_'')" "\<not> is_digit newline"
  by (simp_all add: is_digit_def newline_def less_eq_char_def)

















subsection \<open>Version numbers\<close>







lemma length_decimal_small: "n < 10 \<Longrightarrow> length (decimal n) = 1"
  by (subst decimal.simps) simp




subsection \<open>incrementVersion\<close>












subsection \<open>Common prefixes\<close>

lemma common_prefix_Cons:
  "ts \<noteq> [] \<Longrightarrow> common_prefix (s # ts) = longest_common_prefix s (common_prefix ts)"
  by (cases ts) simp_all








subsection \<open>commonpath\<close>














subsection \<open>Parsing a well-formed attribute string\<close>









end
